theory Spec2Isabelle
  imports Main "HOL-Library.Sublist"
begin

section \<open>The debug-define option handler of \<^verbatim>\<open>waftools/defines.py\<close>\<close>

text \<open>
  The source file holds two hooks that the build framework calls with a context object:
  \<^verbatim>\<open>
  def options(ctx):
      ctx.add_option('--build-debug', action='store_true', default=False,
                     help="Mark a build to include debug code")

  def configure(ctx):
      if ctx.options.build_debug:
          ctx.env.append_value('DEFINES', 'BUILD_DEBUG')
  \<close>
  Both mutate the context in place and return nothing; here each takes the context and
  returns the updated one, or the exception it raises.
\<close>

subsection \<open>Values, errors and the context\<close>

text \<open>
  An attribute of the parsed options holds a Python object. The ones that matter are the
  booleans a switch produces, \<^verbatim>\<open>None\<close> and strings (what other options of the host
  hold); \<open>truthy\<close> is the test that \<^verbatim>\<open>if x:\<close> performs on them.
\<close>

datatype py_value = PyNone | PyBool bool | PyStr string

fun truthy :: "py_value \<Rightarrow> bool" where
  "truthy PyNone = False"
| "truthy (PyBool b) = b"
| "truthy (PyStr s) = (s \<noteq> [])"

text \<open>Reading an attribute that the options object does not have raises AttributeError.\<close>

datatype error = AttributeError

text \<open>One entry of the recognised option set: the arguments of \<^verbatim>\<open>add_option\<close>.\<close>

record opt_def =
  opt_name :: string
  opt_action :: string
  opt_default :: py_value
  opt_help :: string

text \<open>
  The context as the two hooks see it: the option set of the command-line parser
  (written by \<^verbatim>\<open>ctx.add_option\<close>), the parsed option values (\<^verbatim>\<open>ctx.options\<close>, an
  attribute name mapped to its value) and the build environment (\<^verbatim>\<open>ctx.env\<close>, every
  name holding a list of strings). Whatever else the host keeps in the context is
  the record's extension part.
\<close>

record ctx =
  ctx_parser :: "opt_def list"
  ctx_options :: "string \<rightharpoonup> py_value"
  ctx_env :: "string \<Rightarrow> string list"

subsection \<open>The host's operations\<close>

text \<open>
  Modelled from the spec: \<^verbatim>\<open>add_option\<close> is a method of the host framework and
  is not in the source file. The spec gives its effect: it "adds one boolean flag
  definition (name, help text, default value) to the context's recognized option set",
  with "no failure conditions".
\<close>

definition add_option ::
  "string \<Rightarrow> string \<Rightarrow> py_value \<Rightarrow> string \<Rightarrow> 'a ctx_scheme \<Rightarrow> 'a ctx_scheme" where
  "add_option name action dflt help_text c =
     c\<lparr>ctx_parser := ctx_parser c @
        [\<lparr>opt_name = name, opt_action = action, opt_default = dflt, opt_help = help_text\<rparr>]\<rparr>"

text \<open>
  Modelled from the spec: \<^verbatim>\<open>append_value\<close> is a method of the host's environment
  object and is not in the source file. The spec gives its effect: the value is appended
  to the named list of the environment, "after any prior entries (order preserved)",
  and nothing is created, read back or removed besides.
\<close>

definition append_value ::
  "(string \<Rightarrow> string list) \<Rightarrow> string \<Rightarrow> string \<Rightarrow> (string \<Rightarrow> string list)" where
  "append_value e var val = e(var := e var @ [val])"

text \<open>
  Modelled from the spec: the host's command-line parser is not in the source file, and
  neither is its rule for naming a parsed value. The source registers
  \<^verbatim>\<open>--build-debug\<close> and reads the attribute \<^verbatim>\<open>build_debug\<close>: the name of the flag
  without its two leading dashes, every other dash written as an underscore.
\<close>

definition opt_dest :: "string \<Rightarrow> string" where
  "opt_dest name = map (\<lambda>ch. if ch = CHR ''-'' then CHR ''_'' else ch) (drop 2 name)"

text \<open>
  Modelled from the spec: the value the host's parser gives an option. The spec
  describes the flag as "a named boolean switch, default false, no value argument
  (presence alone sets it true)": a \<^verbatim>\<open>store_true\<close> option that stands on the command line
  is true, whatever stands after it, and every other option keeps its default (the spec
  says nothing about options with another action).
\<close>

definition parsed_value :: "opt_def \<Rightarrow> string list \<Rightarrow> py_value" where
  "parsed_value d argv =
     (if opt_action d = ''store_true'' \<and> opt_name d \<in> set argv then PyBool True
      else opt_default d)"

text \<open>
  Modelled from the spec: parsing the command line, which the host does between the
  options phase and the configure phase. It fills \<^verbatim>\<open>ctx.options\<close> with one attribute per
  registered option.
\<close>

definition parse_args :: "string list \<Rightarrow> 'a ctx_scheme \<Rightarrow> 'a ctx_scheme" where
  "parse_args argv c =
     c\<lparr>ctx_options :=
         map_of (map (\<lambda>d. (opt_dest (opt_name d), parsed_value d argv)) (ctx_parser c))\<rparr>"

subsection \<open>The two hooks\<close>

text \<open>
  \<^verbatim>\<open>options\<close> is one call of \<^verbatim>\<open>add_option\<close> with the four arguments of the source.
  \<^verbatim>\<open>configure\<close> reads the attribute \<^verbatim>\<open>build_debug\<close> of the parsed options, tests it
  as \<^verbatim>\<open>if\<close> does, and on a true value calls \<^verbatim>\<open>append_value\<close> on the environment with
  the two literals of the source; otherwise it falls through.
\<close>

definition options :: "'a ctx_scheme \<Rightarrow> error + 'a ctx_scheme" where
  "options c =
     Inr (add_option ''--build-debug'' ''store_true'' (PyBool False)
            ''Mark a build to include debug code'' c)"

definition configure :: "'a ctx_scheme \<Rightarrow> error + 'a ctx_scheme" where
  "configure c =
     (case ctx_options c ''build_debug'' of
        None \<Rightarrow> Inl AttributeError
      | Some v \<Rightarrow>
          if truthy v
          then Inr (c\<lparr>ctx_env := append_value (ctx_env c) ''DEFINES'' ''BUILD_DEBUG''\<rparr>)
          else Inr c)"

section \<open>Properties\<close>

subsection \<open>What configure does to the defines\<close>

text \<open>
  C1. When the parsed value of the flag is true, configure appends exactly one entry,
  the symbol BUILD_DEBUG, at the end of the DEFINES list of the environment: the new list
  is the old one followed by that symbol, one entry longer.
\<close>

theorem configure_true_appends:
  assumes "ctx_options c ''build_debug'' = Some (PyBool True)"
  shows "\<exists>c'. configure c = Inr c'
           \<and> ctx_env c' ''DEFINES'' = ctx_env c ''DEFINES'' @ [''BUILD_DEBUG'']
           \<and> length (ctx_env c' ''DEFINES'') = Suc (length (ctx_env c ''DEFINES''))"
  using assms by (simp add: configure_def append_value_def)

text \<open>The scenario of the spec: the list FOO becomes FOO, BUILD_DEBUG.\<close>

theorem configure_true_appends_witness:
  "ctx_options \<lparr>ctx_parser = [], ctx_options = [''build_debug'' \<mapsto> PyBool True],
                ctx_env = (\<lambda>_. [])(''DEFINES'' := [''FOO''])\<rparr> ''build_debug''
     = Some (PyBool True)
   \<and> (\<exists>c'. configure \<lparr>ctx_parser = [], ctx_options = [''build_debug'' \<mapsto> PyBool True],
                        ctx_env = (\<lambda>_. [])(''DEFINES'' := [''FOO''])\<rparr> = Inr c'
          \<and> ctx_env c' ''DEFINES'' = [''FOO'', ''BUILD_DEBUG''])"
  using configure_true_appends
    [of "\<lparr>ctx_parser = [], ctx_options = [''build_debug'' \<mapsto> PyBool True],
          ctx_env = (\<lambda>_. [])(''DEFINES'' := [''FOO''])\<rparr>"]
  by auto

text \<open>
  C2. When the parsed value of the flag is false, configure returns the context as it
  received it: nothing is added to the defines, whatever they held.
\<close>

theorem configure_false_unchanged:
  assumes "ctx_options c ''build_debug'' = Some (PyBool False)"
  shows "configure c = Inr c"
  using assms by (simp add: configure_def)

text \<open>The scenario of the spec: without the flag the empty list stays empty.\<close>

theorem configure_false_unchanged_witness:
  "ctx_options \<lparr>ctx_parser = [], ctx_options = [''build_debug'' \<mapsto> PyBool False],
                ctx_env = (\<lambda>_. [])\<rparr> ''build_debug'' = Some (PyBool False)
   \<and> (\<exists>c'. configure \<lparr>ctx_parser = [], ctx_options = [''build_debug'' \<mapsto> PyBool False],
                        ctx_env = (\<lambda>_. [])\<rparr> = Inr c'
          \<and> ctx_env c' ''DEFINES'' = [])"
  using configure_false_unchanged
    [of "\<lparr>ctx_parser = [], ctx_options = [''build_debug'' \<mapsto> PyBool False],
          ctx_env = (\<lambda>_. [])\<rparr>"]
  by auto

subsection \<open>The flag on the command line\<close>

text \<open>
  After \<open>options\<close> has run on a parser that held no option of that attribute name, the
  last entry of the parsed list decides the attribute \<^verbatim>\<open>build_debug\<close>.
\<close>

lemma parsed_own_flag:
  assumes "''build_debug'' \<notin> set (map (opt_dest \<circ> opt_name) ds)"
  shows "map_of (map (\<lambda>d. (opt_dest (opt_name d), parsed_value d argv))
            (ds @ [\<lparr>opt_name = ''--build-debug'', opt_action = ''store_true'',
                     opt_default = PyBool False, opt_help = h\<rparr>])) ''build_debug''
         = Some (PyBool (''--build-debug'' \<in> set argv))"
  using assms
proof (induction ds)
  case Nil
  show ?case by (simp add: opt_dest_def parsed_value_def)
next
  case (Cons d ds)
  then show ?case by auto
qed

text \<open>
  C3. The flag registered by options is a boolean switch with default false that takes
  no value: on a host parser that does not already hold an option of that attribute name,
  the parsed value is the boolean "the flag stands on the command line", so its presence
  alone makes it true, and when it is absent the value is false and configure leaves the
  context unchanged, as in the flag-false case.
\<close>

theorem build_debug_switch:
  assumes "''build_debug'' \<notin> set (map (opt_dest \<circ> opt_name) (ctx_parser c))"
  shows "\<exists>c'. options c = Inr c'
           \<and> opt_action (last (ctx_parser c')) = ''store_true''
           \<and> opt_default (last (ctx_parser c')) = PyBool False
           \<and> ctx_options (parse_args argv c') ''build_debug''
               = Some (PyBool (''--build-debug'' \<in> set argv))
           \<and> (''--build-debug'' \<notin> set argv \<longrightarrow>
                 configure (parse_args argv c') = Inr (parse_args argv c'))"
proof -
  let ?c' = "add_option ''--build-debug'' ''store_true'' (PyBool False)
               ''Mark a build to include debug code'' c"
  have reg: "options c = Inr ?c'"
    by (simp add: options_def)
  have kind: "opt_action (last (ctx_parser ?c')) = ''store_true''"
    "opt_default (last (ctx_parser ?c')) = PyBool False"
    by (simp_all add: add_option_def)
  have val: "ctx_options (parse_args argv ?c') ''build_debug''
               = Some (PyBool (''--build-debug'' \<in> set argv))"
    using parsed_own_flag [OF assms] by (simp add: parse_args_def add_option_def)
  have "configure (parse_args argv ?c') = Inr (parse_args argv ?c')"
    if "''--build-debug'' \<notin> set argv"
    using that val by (simp add: configure_def)
  with reg kind val show ?thesis by blast
qed

text \<open>
  A host parser that knows \<^verbatim>\<open>--prefix\<close>: the lone flag on the command line gives true,
  a command line without it gives false.
\<close>

theorem build_debug_switch_witness:
  "''build_debug'' \<notin> set (map (opt_dest \<circ> opt_name)
       (ctx_parser \<lparr>ctx_parser = [\<lparr>opt_name = ''--prefix'', opt_action = ''store'',
                                     opt_default = PyNone, opt_help = ''installation prefix''\<rparr>],
                     ctx_options = Map.empty, ctx_env = (\<lambda>_. [])\<rparr>))
   \<and> (\<exists>c'. options \<lparr>ctx_parser = [\<lparr>opt_name = ''--prefix'', opt_action = ''store'',
                                       opt_default = PyNone, opt_help = ''installation prefix''\<rparr>],
                       ctx_options = Map.empty, ctx_env = (\<lambda>_. [])\<rparr> = Inr c'
          \<and> ctx_options (parse_args [''--build-debug''] c') ''build_debug''
              = Some (PyBool True)
          \<and> ctx_options (parse_args [''configure''] c') ''build_debug''
              = Some (PyBool False)
          \<and> configure (parse_args [''configure''] c') = Inr (parse_args [''configure''] c'))"
  using build_debug_switch
    [of "\<lparr>ctx_parser = [\<lparr>opt_name = ''--prefix'', opt_action = ''store'',
                          opt_default = PyNone, opt_help = ''installation prefix''\<rparr>],
          ctx_options = Map.empty, ctx_env = (\<lambda>_. [])\<rparr>" "[''--build-debug'']"]
    build_debug_switch
    [of "\<lparr>ctx_parser = [\<lparr>opt_name = ''--prefix'', opt_action = ''store'',
                          opt_default = PyNone, opt_help = ''installation prefix''\<rparr>],
          ctx_options = Map.empty, ctx_env = (\<lambda>_. [])\<rparr>" "[''configure'']"]
  by (auto simp add: opt_dest_def)

subsection \<open>Repeated calls, and the invariant of one call\<close>

text \<open>
  C4. configure is not idempotent when the flag is true: a second call on the context
  that the first call returned appends the symbol again, so the defines end with two
  copies of BUILD_DEBUG and the second result differs from the first. Nothing removes a
  duplicate.
\<close>

theorem configure_twice_appends_twice:
  assumes "ctx_options c ''build_debug'' = Some (PyBool True)"
  shows "\<exists>c1 c2. configure c = Inr c1 \<and> configure c1 = Inr c2
           \<and> ctx_env c1 ''DEFINES'' = ctx_env c ''DEFINES'' @ [''BUILD_DEBUG'']
           \<and> ctx_env c2 ''DEFINES''
               = ctx_env c ''DEFINES'' @ [''BUILD_DEBUG'', ''BUILD_DEBUG'']
           \<and> c2 \<noteq> c1"
proof -
  let ?c1 = "c\<lparr>ctx_env := append_value (ctx_env c) ''DEFINES'' ''BUILD_DEBUG''\<rparr>"
  let ?c2 = "?c1\<lparr>ctx_env := append_value (ctx_env ?c1) ''DEFINES'' ''BUILD_DEBUG''\<rparr>"
  have first: "configure c = Inr ?c1"
    using assms by (simp add: configure_def)
  have second: "configure ?c1 = Inr ?c2"
    using assms by (simp add: configure_def)
  have once: "ctx_env ?c1 ''DEFINES'' = ctx_env c ''DEFINES'' @ [''BUILD_DEBUG'']"
    by (simp add: append_value_def)
  have twice: "ctx_env ?c2 ''DEFINES''
                 = ctx_env c ''DEFINES'' @ [''BUILD_DEBUG'', ''BUILD_DEBUG'']"
    by (simp add: append_value_def)
  have "ctx_env ?c2 ''DEFINES'' \<noteq> ctx_env ?c1 ''DEFINES''"
    unfolding once twice by simp
  then have "?c2 \<noteq> ?c1"
    by metis
  with first second once twice show ?thesis
    by blast
qed

text \<open>The scenario of the spec: two calls turn FOO into FOO, BUILD_DEBUG, BUILD_DEBUG.\<close>

theorem configure_twice_appends_twice_witness:
  "ctx_options \<lparr>ctx_parser = [], ctx_options = [''build_debug'' \<mapsto> PyBool True],
                ctx_env = (\<lambda>_. [])(''DEFINES'' := [''FOO''])\<rparr> ''build_debug''
     = Some (PyBool True)
   \<and> (\<exists>c1 c2. configure \<lparr>ctx_parser = [], ctx_options = [''build_debug'' \<mapsto> PyBool True],
                           ctx_env = (\<lambda>_. [])(''DEFINES'' := [''FOO''])\<rparr> = Inr c1
          \<and> configure c1 = Inr c2
          \<and> ctx_env c2 ''DEFINES'' = [''FOO'', ''BUILD_DEBUG'', ''BUILD_DEBUG''])"
  using configure_twice_appends_twice
    [of "\<lparr>ctx_parser = [], ctx_options = [''build_debug'' \<mapsto> PyBool True],
          ctx_env = (\<lambda>_. [])(''DEFINES'' := [''FOO''])\<rparr>"]
  by auto

text \<open>
  C5. In one call of configure on a context whose flag holds a boolean, what is added to
  the defines is at most one entry, and when anything is added the flag is true and the
  entry is the symbol BUILD_DEBUG.
\<close>

theorem configure_at_most_once:
  assumes "ctx_options c ''build_debug'' = Some (PyBool b)"
  shows "\<exists>c' added. configure c = Inr c'
           \<and> ctx_env c' ''DEFINES'' = ctx_env c ''DEFINES'' @ added
           \<and> length added \<le> 1
           \<and> (added \<noteq> [] \<longrightarrow> b \<and> added = [''BUILD_DEBUG''])"
proof (cases b)
  case True
  let ?c' = "c\<lparr>ctx_env := append_value (ctx_env c) ''DEFINES'' ''BUILD_DEBUG''\<rparr>"
  from True assms have run: "configure c = Inr ?c'"
    by (simp add: configure_def)
  have grown: "ctx_env ?c' ''DEFINES'' = ctx_env c ''DEFINES'' @ [''BUILD_DEBUG'']"
    by (simp add: append_value_def)
  show ?thesis
  proof (intro exI conjI)
    show "configure c = Inr ?c'" by (rule run)
    show "ctx_env ?c' ''DEFINES'' = ctx_env c ''DEFINES'' @ [''BUILD_DEBUG'']" by (rule grown)
    show "length [''BUILD_DEBUG''] \<le> 1" by simp
    show "[''BUILD_DEBUG''] \<noteq> [] \<longrightarrow> b \<and> [''BUILD_DEBUG''] = [''BUILD_DEBUG'']"
      using True by simp
  qed
next
  case False
  with assms have run: "configure c = Inr c"
    by (simp add: configure_def)
  show ?thesis
  proof (intro exI conjI)
    show "configure c = Inr c" by (rule run)
    show "ctx_env c ''DEFINES'' = ctx_env c ''DEFINES'' @ []" by simp
    show "length ([] :: string list) \<le> 1" by simp
    show "([] :: string list) \<noteq> [] \<longrightarrow> b \<and> [] = [''BUILD_DEBUG'']" by simp
  qed
qed

text \<open>
  With the flag true the defines FOO come out as FOO or as FOO, BUILD_DEBUG (the bound);
  with the flag false they come out as FOO.
\<close>

theorem configure_at_most_once_witness:
  "(\<exists>c'. configure \<lparr>ctx_parser = [], ctx_options = [''build_debug'' \<mapsto> PyBool True],
                     ctx_env = (\<lambda>_. [])(''DEFINES'' := [''FOO''])\<rparr> = Inr c'
       \<and> (ctx_env c' ''DEFINES'' = [''FOO'']
            \<or> ctx_env c' ''DEFINES'' = [''FOO'', ''BUILD_DEBUG'']))
   \<and> (\<exists>c'. configure \<lparr>ctx_parser = [], ctx_options = [''build_debug'' \<mapsto> PyBool False],
                        ctx_env = (\<lambda>_. [])(''DEFINES'' := [''FOO''])\<rparr> = Inr c'
          \<and> ctx_env c' ''DEFINES'' = [''FOO''])"
proof -
  let ?on = "\<lparr>ctx_parser = [], ctx_options = [''build_debug'' \<mapsto> PyBool True],
              ctx_env = (\<lambda>_. [])(''DEFINES'' := [''FOO''])\<rparr>"
  let ?off = "\<lparr>ctx_parser = [], ctx_options = [''build_debug'' \<mapsto> PyBool False],
               ctx_env = (\<lambda>_. [])(''DEFINES'' := [''FOO''])\<rparr>"
  have "ctx_options ?on ''build_debug'' = Some (PyBool True)"
    by simp
  from configure_at_most_once [OF this] obtain c' added where
    run: "configure ?on = Inr c'"
    and grown: "ctx_env c' ''DEFINES'' = ctx_env ?on ''DEFINES'' @ added"
    and only: "added \<noteq> [] \<longrightarrow> True \<and> added = [''BUILD_DEBUG'']"
    by blast
  from only have "added = [] \<or> added = [''BUILD_DEBUG'']"
    by blast
  with grown have "ctx_env c' ''DEFINES'' = [''FOO'']
      \<or> ctx_env c' ''DEFINES'' = [''FOO'', ''BUILD_DEBUG'']"
    by auto
  with run have on: "\<exists>c'. configure ?on = Inr c'
              \<and> (ctx_env c' ''DEFINES'' = [''FOO'']
                   \<or> ctx_env c' ''DEFINES'' = [''FOO'', ''BUILD_DEBUG''])"
    by blast
  have "ctx_options ?off ''build_debug'' = Some (PyBool False)"
    by simp
  from configure_at_most_once [OF this]
  have off: "\<exists>c'. configure ?off = Inr c' \<and> ctx_env c' ''DEFINES'' = [''FOO'']"
    by auto
  from on off show ?thesis
    by blast
qed

subsection \<open>What configure leaves alone\<close>

text \<open>
  C6. configure only appends to the defines: for every value the flag may hold and every
  initial list, the call returns and the initial DEFINES list is a prefix of the
  resulting one, so no entry is removed, moved or rewritten.
\<close>

theorem configure_defines_prefix:
  assumes "ctx_options c ''build_debug'' = Some v"
  shows "\<exists>c'. configure c = Inr c'
           \<and> prefix (ctx_env c ''DEFINES'') (ctx_env c' ''DEFINES'')"
  using assms by (cases "truthy v") (simp_all add: configure_def append_value_def)

theorem configure_defines_prefix_witness:
  "ctx_options \<lparr>ctx_parser = [], ctx_options = [''build_debug'' \<mapsto> PyBool True],
                ctx_env = (\<lambda>_. [])(''DEFINES'' := [''FOO'', ''BAR''])\<rparr> ''build_debug''
     = Some (PyBool True)
   \<and> (\<exists>c'. configure \<lparr>ctx_parser = [], ctx_options = [''build_debug'' \<mapsto> PyBool True],
                        ctx_env = (\<lambda>_. [])(''DEFINES'' := [''FOO'', ''BAR''])\<rparr> = Inr c'
          \<and> prefix [''FOO'', ''BAR''] (ctx_env c' ''DEFINES''))"
  using configure_defines_prefix
    [of "\<lparr>ctx_parser = [], ctx_options = [''build_debug'' \<mapsto> PyBool True],
          ctx_env = (\<lambda>_. [])(''DEFINES'' := [''FOO'', ''BAR''])\<rparr>" "PyBool True"]
  by auto

text \<open>
  C7. Neither hook fails on a well-formed context, that is one whose parsed options have
  the attribute \<^verbatim>\<open>build_debug\<close>: options returns a context, and so does configure. The
  one error of the model, the AttributeError of a context without that attribute, is not
  reached.
\<close>

theorem hooks_do_not_fail:
  assumes "ctx_options c ''build_debug'' \<noteq> None"
  shows "(\<exists>c'. options c = Inr c') \<and> (\<exists>c'. configure c = Inr c')"
  using assms by (auto simp add: options_def configure_def)

theorem hooks_do_not_fail_witness:
  "ctx_options \<lparr>ctx_parser = [], ctx_options = [''build_debug'' \<mapsto> PyBool True],
                ctx_env = (\<lambda>_. [])\<rparr> ''build_debug'' \<noteq> None
   \<and> (\<exists>c'. options \<lparr>ctx_parser = [], ctx_options = [''build_debug'' \<mapsto> PyBool True],
                      ctx_env = (\<lambda>_. [])\<rparr> = Inr c')
   \<and> (\<exists>c'. configure \<lparr>ctx_parser = [], ctx_options = [''build_debug'' \<mapsto> PyBool True],
                        ctx_env = (\<lambda>_. [])\<rparr> = Inr c')"
  using hooks_do_not_fail
    [of "\<lparr>ctx_parser = [], ctx_options = [''build_debug'' \<mapsto> PyBool True],
          ctx_env = (\<lambda>_. [])\<rparr>"]
  by auto

text \<open>
  C8. options adds exactly one definition to the recognised option set, at its end: the
  boolean flag \<^verbatim>\<open>--build-debug\<close> with action store_true, default false and its help
  text. The environment with its defines, the parsed options and the rest of the context
  are as before.
\<close>

theorem options_registers_one_flag:
  "\<exists>c' d. options c = Inr c'
     \<and> ctx_parser c' = ctx_parser c @ [d]
     \<and> opt_name d = ''--build-debug'' \<and> opt_action d = ''store_true''
     \<and> opt_default d = PyBool False \<and> opt_help d = ''Mark a build to include debug code''
     \<and> ctx_env c' = ctx_env c \<and> ctx_options c' = ctx_options c
     \<and> ctx.more c' = ctx.more c"
  by (simp add: options_def add_option_def)

theorem options_registers_one_flag_witness:
  "\<exists>c'. options \<lparr>ctx_parser = [\<lparr>opt_name = ''--prefix'', opt_action = ''store'',
                                   opt_default = PyNone, opt_help = ''installation prefix''\<rparr>],
                   ctx_options = Map.empty,
                   ctx_env = (\<lambda>_. [])(''DEFINES'' := [''FOO''])\<rparr> = Inr c'
      \<and> map opt_name (ctx_parser c') = [''--prefix'', ''--build-debug'']
      \<and> ctx_env c' ''DEFINES'' = [''FOO'']"
  using options_registers_one_flag
    [of "\<lparr>ctx_parser = [\<lparr>opt_name = ''--prefix'', opt_action = ''store'',
                          opt_default = PyNone, opt_help = ''installation prefix''\<rparr>],
          ctx_options = Map.empty,
          ctx_env = (\<lambda>_. [])(''DEFINES'' := [''FOO''])\<rparr>"]
  by auto

text \<open>
  C9. The only thing configure changes is the DEFINES list of the environment: for
  either value of the flag (for any value it holds), every other name of the environment,
  the parsed options, the option set and the rest of the context are the same after the
  call.
\<close>

theorem configure_frame:
  assumes "ctx_options c ''build_debug'' = Some v"
  shows "\<exists>c'. configure c = Inr c'
           \<and> (\<forall>var. var \<noteq> ''DEFINES'' \<longrightarrow> ctx_env c' var = ctx_env c var)
           \<and> ctx_options c' = ctx_options c
           \<and> ctx_parser c' = ctx_parser c
           \<and> ctx.more c' = ctx.more c"
  using assms by (cases "truthy v") (simp_all add: configure_def append_value_def)

theorem configure_frame_witness:
  "ctx_options \<lparr>ctx_parser = [], ctx_options = [''build_debug'' \<mapsto> PyBool True],
                ctx_env = (\<lambda>_. [])(''CFLAGS'' := [''-O2''])\<rparr> ''build_debug''
     = Some (PyBool True)
   \<and> (\<exists>c'. configure \<lparr>ctx_parser = [], ctx_options = [''build_debug'' \<mapsto> PyBool True],
                        ctx_env = (\<lambda>_. [])(''CFLAGS'' := [''-O2''])\<rparr> = Inr c'
          \<and> ctx_env c' ''CFLAGS'' = [''-O2'']
          \<and> ctx_options c' ''build_debug'' = Some (PyBool True))"
proof -
  let ?c = "\<lparr>ctx_parser = [], ctx_options = [''build_debug'' \<mapsto> PyBool True],
             ctx_env = (\<lambda>_. [])(''CFLAGS'' := [''-O2''])\<rparr>"
  have flag: "ctx_options ?c ''build_debug'' = Some (PyBool True)"
    by simp
  from configure_frame [OF this] obtain c' where
    run: "configure ?c = Inr c'"
    and env: "\<forall>var. var \<noteq> ''DEFINES'' \<longrightarrow> ctx_env c' var = ctx_env ?c var"
    and opts: "ctx_options c' = ctx_options ?c"
    by blast
  from env have "ctx_env c' ''CFLAGS'' = [''-O2'']"
    by simp
  moreover from opts have "ctx_options c' ''build_debug'' = Some (PyBool True)"
    by simp
  ultimately show ?thesis
    using flag run by blast
qed

text \<open>
  C10. configure is deterministic in the flag and the defines: two contexts that agree
  on the parsed value of the flag and on the DEFINES list give the same outcome (the same
  error, or the same resulting DEFINES list), whatever else differs between them.
\<close>

theorem configure_deterministic:
  assumes "ctx_options c1 ''build_debug'' = ctx_options c2 ''build_debug''"
    and "ctx_env c1 ''DEFINES'' = ctx_env c2 ''DEFINES''"
  shows "map_sum id (\<lambda>c'. ctx_env c' ''DEFINES'') (configure c1)
       = map_sum id (\<lambda>c'. ctx_env c' ''DEFINES'') (configure c2)"
  using assms
  by (simp add: configure_def append_value_def split: option.splits)

text \<open>Two contexts that differ in another option, another variable and the option set.\<close>

theorem configure_deterministic_witness:
  "ctx_options \<lparr>ctx_parser = [], ctx_options = [''build_debug'' \<mapsto> PyBool True],
                ctx_env = (\<lambda>_. [])(''DEFINES'' := [''FOO''])\<rparr> ''build_debug''
     = ctx_options \<lparr>ctx_parser = [\<lparr>opt_name = ''--prefix'', opt_action = ''store'',
                                     opt_default = PyNone, opt_help = ''installation prefix''\<rparr>],
                     ctx_options = [''build_debug'' \<mapsto> PyBool True, ''prefix'' \<mapsto> PyStr ''/usr''],
                     ctx_env = (\<lambda>_. [])(''DEFINES'' := [''FOO''], ''CFLAGS'' := [''-O2''])\<rparr>
         ''build_debug''
   \<and> map_sum id (\<lambda>c'. ctx_env c' ''DEFINES'')
        (configure \<lparr>ctx_parser = [], ctx_options = [''build_debug'' \<mapsto> PyBool True],
                    ctx_env = (\<lambda>_. [])(''DEFINES'' := [''FOO''])\<rparr>)
     = map_sum id (\<lambda>c'. ctx_env c' ''DEFINES'')
        (configure \<lparr>ctx_parser = [\<lparr>opt_name = ''--prefix'', opt_action = ''store'',
                                     opt_default = PyNone, opt_help = ''installation prefix''\<rparr>],
                    ctx_options = [''build_debug'' \<mapsto> PyBool True, ''prefix'' \<mapsto> PyStr ''/usr''],
                    ctx_env = (\<lambda>_. [])(''DEFINES'' := [''FOO''], ''CFLAGS'' := [''-O2''])\<rparr>)"
  using configure_deterministic
    [of "\<lparr>ctx_parser = [], ctx_options = [''build_debug'' \<mapsto> PyBool True],
          ctx_env = (\<lambda>_. [])(''DEFINES'' := [''FOO''])\<rparr>"
        "\<lparr>ctx_parser = [\<lparr>opt_name = ''--prefix'', opt_action = ''store'',
                          opt_default = PyNone, opt_help = ''installation prefix''\<rparr>],
          ctx_options = [''build_debug'' \<mapsto> PyBool True, ''prefix'' \<mapsto> PyStr ''/usr''],
          ctx_env = (\<lambda>_. [])(''DEFINES'' := [''FOO''], ''CFLAGS'' := [''-O2''])\<rparr>"]
  by simp

end
